theory Spec2Isabelle
  imports Main "HOL-Library.Word"
begin

section \<open>Basic types of the Go program\<close>

text \<open>
  Go's \<open>int\<close> is modelled as a 64-bit machine word: \<open>+\<close> and \<open>-\<close> wrap around as
  Go's do, comparisons of signed values are \<open>\<le>s\<close> and \<open><s\<close>. A Go \<open>error\<close> value is
  its message; \<open>nil\<close> is \<open>None\<close>.
\<close>

type_synonym go_int = "64 word"
type_synonym error = string

subsection \<open>Constants of main.go\<close>

definition const_sendstate_sleeps :: go_int where
  "const_sendstate_sleeps = 5"

definition const_p1demandstart :: go_int where
  "const_p1demandstart = 5"

definition const_p2demandstart :: go_int where
  "const_p2demandstart = 4"

definition const_maxcontainers :: go_int where
  "const_maxcontainers = 9"

text \<open>
  The package-level variables \<open>p1TaskName\<close>, \<open>p2TaskName\<close>, \<open>p1FamilyName\<close> and
  \<open>p2FamilyName\<close> of main.go, set once at startup from the environment.
\<close>

record Globals =
  p1TaskName :: string
  p2TaskName :: string
  p1FamilyName :: string
  p2FamilyName :: string

section \<open>Collaborators: demand.Input\<close>

text \<open>
  \<open>demand.Input\<close> is an interface with one method, \<open>GetDemand(name) (int, error)\<close>. Its
  implementations are stateful (a random walk, a Consul reader), so the model passes
  the state \<open>'i\<close> of the source through every call. Go returns both results at once:
  the integer is there even when the error is not nil.
\<close>

type_synonym 'i Input = "string \<Rightarrow> 'i \<Rightarrow> (go_int \<times> error option) \<times> 'i"

section \<open>Collaborators: scheduler.Scheduler as main.go calls it\<close>

text \<open>
  main.go calls three methods of the scheduler: \<open>InitScheduler(name) error\<close>,
  \<open>StopStartNTasks(name, family, demand, requested) error\<close> and
  \<open>CountAllTasks() (int, int, error)\<close>. The backends are outside the sources, so a
  scheduler is any triple of such operations over a state \<open>'s\<close> of its own.
\<close>

record 's Scheduler =
  InitScheduler :: "string \<Rightarrow> 's \<Rightarrow> error option \<times> 's"
  StopStartNTasks :: "string \<Rightarrow> string \<Rightarrow> go_int \<Rightarrow> go_int \<Rightarrow> 's \<Rightarrow> error option \<times> 's"
  CountAllTasks :: "'s \<Rightarrow> (go_int \<times> go_int \<times> error option) \<times> 's"

text \<open>The calls issued to the scheduler, in the order they are issued.\<close>

datatype call =
    InitSchedulerCall string
  | CountAllTasksCall
  | StopStartNTasksCall string string go_int go_int

section \<open>main.go: the Demand struct and its methods\<close>

text \<open>
  The fields \<open>sched\<close> and \<open>input\<close> of the struct are interface values; the model
  passes them as arguments to the methods that call them.
\<close>

record Demand =
  p1demand :: go_int
  p2demand :: go_int
  p1requested :: go_int
  p2requested :: go_int

text \<open>\<open>func (d *Demand) set(p1, p2 int) (int, int)\<close>: returns the old pair and the updated struct.\<close>

definition set_Demand :: "go_int \<Rightarrow> go_int \<Rightarrow> Demand \<Rightarrow> (go_int \<times> go_int) \<times> Demand" where
  "set_Demand p1 p2 d =
     (let p1old = p1demand d;
          p2old = p2demand d;
          d = (if p2 \<noteq> - 1 then d\<lparr>p2demand := p2\<rparr> else d);
          d = (if p1 \<noteq> - 1 then d\<lparr>p1demand := p1\<rparr> else d)
      in ((p1old, p2old), d))"

definition get_Demand :: "Demand \<Rightarrow> go_int \<times> go_int" where
  "get_Demand d = (p1demand d, p2demand d)"

text \<open>
  \<open>func (d *Demand) handle() error\<close>. The result of the second call is dropped by the
  source; the error returned is the one of the first call.
\<close>

definition handle_Demand ::
  "Globals \<Rightarrow> 's Scheduler \<Rightarrow> Demand \<Rightarrow> 's \<times> call list \<Rightarrow> error option \<times> 's \<times> call list" where
  "handle_Demand G S d = (\<lambda>(sst, cs).
     (let (err, sst) = StopStartNTasks S (p1TaskName G) (p1FamilyName G) (p1demand d) (p1requested d) sst;
          cs = cs @ [StopStartNTasksCall (p1TaskName G) (p1FamilyName G) (p1demand d) (p1requested d)];
          (_, sst) = StopStartNTasks S (p2TaskName G) (p2FamilyName G) (p2demand d) (p2requested d) sst;
          cs = cs @ [StopStartNTasksCall (p2TaskName G) (p2FamilyName G) (p2demand d) (p2requested d)]
      in (err, sst, cs)))"

text \<open>
  \<open>func (d *Demand) update() bool\<close>: one demand sample. The result is the flag, the
  struct and the new state of the demand source.
\<close>

definition update_Demand :: "'i Input \<Rightarrow> Demand \<Rightarrow> 'i \<Rightarrow> bool \<times> Demand \<times> 'i" where
  "update_Demand GetDemand d ist =
     (let ((newP1Demand, err), ist) = GetDemand ''priority1-demand'' ist
      in case err of
           Some e \<Rightarrow> (False, d, ist)
         | None \<Rightarrow>
             (let newP2Demand = const_maxcontainers - newP1Demand;
                  ((oldP1Demand, oldP2Demand), d) = set_Demand newP1Demand newP2Demand d;
                  demandchange = (newP1Demand \<noteq> oldP1Demand \<or> newP2Demand \<noteq> oldP2Demand)
              in (demandchange, d, ist)))"

section \<open>main.go: the telemetry push\<close>

record sendStatePayload =
  CreatedAt :: go_int
  Priority1Requested :: go_int
  Priority1Running :: go_int
  Priority2Running :: go_int

text \<open>
  What \<open>sendStateToAPI\<close> needs from the outside: the clock, the JSON encoder, the
  request constructor and \<open>http.DefaultClient.Do\<close>. \<open>Do\<close> returns a response pointer
  and an error; the pointer is \<open>nil\<close> (\<open>None\<close>) when the request could not be sent.
\<close>

record Response =
  StatusCode :: go_int
  Status :: string

record 'h Http =
  Now :: "'h \<Rightarrow> go_int"
  Encode :: "sendStatePayload \<Rightarrow> error option"
  NewRequest :: "string \<Rightarrow> string \<Rightarrow> error option"
  Do :: "string \<Rightarrow> sendStatePayload \<Rightarrow> 'h \<Rightarrow> (Response option \<times> error option) \<times> 'h"

text \<open>A Go function either returns or panics; an unrecovered panic ends the process.\<close>

datatype 'a outcome = Returns 'a | Panics

definition getBaseF12APIUrl :: "string \<Rightarrow> string" where
  "getBaseF12APIUrl API_ADDRESS =
     (if API_ADDRESS = [] then ''https://force12-windtunnel.herokuapp.com'' else API_ADDRESS)"

definition getEnvOrDefault :: "string \<Rightarrow> string \<Rightarrow> string" where
  "getEnvOrDefault v defaultValue = (if v = [] then defaultValue else v)"

text \<open>
  \<open>func sendStateToAPI(currentdemand *Demand) error\<close>. The statement
  \<open>defer resp.Body.Close()\<close> stands before the error check: Go evaluates
  \<open>resp.Body\<close> when the defer statement runs, which dereferences \<open>resp\<close>, so a \<open>nil\<close>
  response panics there.
\<close>

definition sendStateToAPI ::
  "'s Scheduler \<Rightarrow> 'h Http \<Rightarrow> string \<Rightarrow> Demand \<Rightarrow> 's \<times> call list \<Rightarrow> 'h
     \<Rightarrow> error option outcome \<times> ('s \<times> call list) \<times> 'h" where
  "sendStateToAPI S H API_ADDRESS currentdemand = (\<lambda>(sst, cs) hst.
     (let ((count1, count2, err), sst) = CountAllTasks S sst;
          cs = cs @ [CountAllTasksCall]
      in case err of
           Some e \<Rightarrow> (Returns (Some (''Failed to get state err '' @ e)), (sst, cs), hst)
         | None \<Rightarrow>
             (let url = getBaseF12APIUrl API_ADDRESS @ ''/metrics/'' @ ''5k5gk'';
                  payload = \<lparr>CreatedAt = Now H hst,
                             Priority1Requested = p1demand currentdemand,
                             Priority1Running = count1,
                             Priority2Running = count2\<rparr>
              in case Encode H payload of
                   Some e \<Rightarrow> (Returns (Some (''Failed to encode API json. '' @ e)), (sst, cs), hst)
                 | None \<Rightarrow>
                     (case NewRequest H ''PUT'' url of
                        Some e \<Rightarrow>
                          (Returns (Some (''Failed to build API PUT request err '' @ e)), (sst, cs), hst)
                      | None \<Rightarrow>
                          (let ((resp, err), hst) = Do H url payload hst
                           in case resp of
                                None \<Rightarrow> (Panics, (sst, cs), hst)
                              | Some r \<Rightarrow>
                                  (case err of
                                     Some e \<Rightarrow> (Returns (Some (''API state err '' @ e)), (sst, cs), hst)
                                   | None \<Rightarrow>
                                       if 204 <s StatusCode r
                                       then (Returns (Some (''error response from API. '' @ Status r)),
                                             (sst, cs), hst)
                                       else (Returns None, (sst, cs), hst)))))))"

section \<open>main.go: the control loop\<close>

text \<open>
  The local variables of \<open>main\<close> that live across iterations, the states of the three
  collaborators and the calls issued to the scheduler so far.
\<close>

record ('i, 's, 'h) world =
  currentdemand :: Demand
  demandchangeflag :: bool
  sleepcount :: go_int
  input_state :: 'i
  sched_state :: 's
  http_state :: 'h
  calls :: "call list"

text \<open>
  Lines 277 to 283 of \<open>main\<close>: the sample taken before the loop, the assignment of
  \<open>true\<close> to the flag and the sleep counter, run on the struct and collaborator states
  given.
\<close>

definition main_before_loop ::
  "'i Input \<Rightarrow> Demand \<Rightarrow> 'i \<Rightarrow> 's \<Rightarrow> 'h \<Rightarrow> call list \<Rightarrow> ('i, 's, 'h) world" where
  "main_before_loop GetDemand d ist sst hst cs =
     (let (flag, d, ist) = update_Demand GetDemand d ist;
          flag = True
      in \<lparr>currentdemand = d, demandchangeflag = flag, sleepcount = 0,
          input_state = ist, sched_state = sst, http_state = hst, calls = cs\<rparr>)"

text \<open>
  \<open>main\<close> from the construction of \<open>currentdemand\<close> up to the loop. The literal
  \<open>Demand{input: di}\<close> leaves the field \<open>sched\<close> \<open>nil\<close>, and the scheduler \<open>s\<close> chosen
  by the switch is never stored in it; a method call on a \<open>nil\<close> interface panics.
  \<open>Returns None\<close> is the early \<open>return\<close> after a failed \<open>InitScheduler\<close>,
  \<open>Returns (Some w)\<close> the entry into the loop in state \<open>w\<close>.
\<close>

definition main_init ::
  "Globals \<Rightarrow> 'i Input \<Rightarrow> 's Scheduler \<Rightarrow> 'i \<Rightarrow> 's \<Rightarrow> 'h
     \<Rightarrow> ('i, 's, 'h) world option outcome" where
  "main_init G GetDemand s ist sst hst =
     (let sched = (None :: 's Scheduler option);
          d = \<lparr>p1demand = 0, p2demand = 0, p1requested = 0, p2requested = 0\<rparr>;
          (_, d) = set_Demand const_p1demandstart const_p2demandstart d
      in case sched of
           None \<Rightarrow> Panics
         | Some S \<Rightarrow>
             (let (err, sst) = InitScheduler S (p1TaskName G) sst;
                  cs = [InitSchedulerCall (p1TaskName G)]
              in case err of
                   Some e \<Rightarrow> Returns None
                 | None \<Rightarrow>
                     (let (err, sst) = InitScheduler S (p2TaskName G) sst;
                          cs = cs @ [InitSchedulerCall (p2TaskName G)]
                      in case err of
                           Some e \<Rightarrow> Returns None
                         | None \<Rightarrow> Returns (Some (main_before_loop GetDemand d ist sst hst cs)))))"

text \<open>The first half of the loop body: sample, and reconcile when the sample changed.\<close>

definition reconcile_step ::
  "Globals \<Rightarrow> 'i Input \<Rightarrow> 's Scheduler \<Rightarrow> ('i, 's, 'h) world \<Rightarrow> ('i, 's, 'h) world" where
  "reconcile_step G GetDemand S w =
     (let (flag, d, ist) = update_Demand GetDemand (currentdemand w) (input_state w);
          w = w\<lparr>demandchangeflag := flag, currentdemand := d, input_state := ist\<rparr>
      in if demandchangeflag w
         then
           (let ((c1, c2, err), sst) = CountAllTasks S (sched_state w);
                d = (currentdemand w)\<lparr>p1requested := c1, p2requested := c2\<rparr>;
                cs = calls w @ [CountAllTasksCall];
                (err, sst, cs) = handle_Demand G S d (sst, cs)
            in w\<lparr>currentdemand := d, sched_state := sst, calls := cs\<rparr>)
         else w)"

text \<open>
  The second half: count the sleep and, every \<open>const_sendstate_sleeps\<close> iterations,
  push the state when \<open>F12_SEND_STATE_TO_API\<close> is \<open>true\<close>. An error returned by the push
  is logged and dropped; a panic is not recovered.
\<close>

definition telemetry_step ::
  "'s Scheduler \<Rightarrow> 'h Http \<Rightarrow> string \<Rightarrow> string \<Rightarrow> ('i, 's, 'h) world
     \<Rightarrow> ('i, 's, 'h) world outcome" where
  "telemetry_step S H sendstate API_ADDRESS w =
     (let w = w\<lparr>sleepcount := sleepcount w + 1\<rparr>
      in if sleepcount w = const_sendstate_sleeps
         then
           (let w = w\<lparr>sleepcount := 0\<rparr>
            in if sendstate = ''true''
               then
                 (case sendStateToAPI S H API_ADDRESS (currentdemand w)
                         (sched_state w, calls w) (http_state w) of
                    (Panics, _) \<Rightarrow> Panics
                  | (Returns err, (sst, cs), hst) \<Rightarrow>
                      Returns (w\<lparr>sched_state := sst, calls := cs, http_state := hst\<rparr>))
               else Returns w)
         else Returns w)"

definition loop_body ::
  "Globals \<Rightarrow> 'i Input \<Rightarrow> 's Scheduler \<Rightarrow> 'h Http \<Rightarrow> string \<Rightarrow> string
     \<Rightarrow> ('i, 's, 'h) world \<Rightarrow> ('i, 's, 'h) world outcome" where
  "loop_body G GetDemand S H sendstate API_ADDRESS w =
     telemetry_step S H sendstate API_ADDRESS (reconcile_step G GetDemand S w)"

text \<open>
  The loop \<open>for { ... }\<close> has no exit; \<open>main_loop n\<close> is its first \<open>n\<close> iterations,
  stopping early only at a panic.
\<close>

fun main_loop ::
  "Globals \<Rightarrow> 'i Input \<Rightarrow> 's Scheduler \<Rightarrow> 'h Http \<Rightarrow> string \<Rightarrow> string
     \<Rightarrow> nat \<Rightarrow> ('i, 's, 'h) world \<Rightarrow> ('i, 's, 'h) world outcome" where
  "main_loop G GetDemand S H sendstate API_ADDRESS 0 w = Returns w"
| "main_loop G GetDemand S H sendstate API_ADDRESS (Suc n) w =
     (case loop_body G GetDemand S H sendstate API_ADDRESS w of
        Panics \<Rightarrow> Panics
      | Returns w \<Rightarrow> main_loop G GetDemand S H sendstate API_ADDRESS n w)"

section \<open>The handler file: update and handleDemandChange\<close>

text \<open>
  Modelled from the spec: the type \<open>demand.Task\<close> is declared in package \<open>demand\<close>,
  which is not among the sources. The specification gives a task class record the
  fields name, family, demand, requested and running; the handler reads and writes
  \<open>Demand\<close> only and hands the whole record to the scheduler. The zero value of the
  struct, which Go's map lookup returns for a missing key, has every field zero.
\<close>

record Task =
  Name :: string
  Family :: string
  Demand :: go_int
  Requested :: go_int
  Running :: go_int

definition zero_Task :: Task where
  "zero_Task = \<lparr>Name = [], Family = [], Demand = 0, Requested = 0, Running = 0\<rparr>"

text \<open>\<open>ts[name]\<close> read from a \<open>map[string]demand.Task\<close>.\<close>

definition index_ts :: "(string \<rightharpoonup> Task) \<Rightarrow> string \<Rightarrow> Task" where
  "index_ts ts name = (case ts name of None \<Rightarrow> zero_Task | Some t \<Rightarrow> t)"

text \<open>
  Here the scheduler is called as \<open>StopStartNTasks(name, &task, ready) (bool, error)\<close>:
  it may write to the task through the pointer, so the model returns the task with
  the two results. The channel \<open>ready\<close> is handed through unused by the handler.
\<close>

type_synonym 's TaskScheduler = "string \<Rightarrow> Task \<Rightarrow> 's \<Rightarrow> (bool \<times> error option \<times> Task) \<times> 's"

text \<open>
  One issued \<open>StopStartNTasks\<close> call: the class, the task passed in, the value of
  \<open>*scaling_ready\<close> when the call was made, and what the call gave back.
\<close>

record issue =
  class_name :: string
  task_in :: Task
  ready_before :: bool
  ready_after :: bool
  returned :: "error option"
  task_out :: Task

record ('i, 's) hworld =
  tasks :: "string \<rightharpoonup> Task"
  scaling_ready :: bool
  input_st :: 'i
  sched_st :: 's
  issued :: "issue list"

text \<open>
  \<open>func update(input demand.Input, ts map[string]demand.Task) (bool, error)\<close>.
  \<open>p1\<close> and \<open>p2\<close> are copies of the map's entries; the map is written only at the
  end.
\<close>

definition update ::
  "Globals \<Rightarrow> 'i Input \<Rightarrow> (string \<rightharpoonup> Task) \<Rightarrow> 'i
     \<Rightarrow> (bool \<times> error option) \<times> (string \<rightharpoonup> Task) \<times> 'i" where
  "update G GetDemand ts ist =
     (let p1 = index_ts ts (p1TaskName G);
          p2 = index_ts ts (p2TaskName G);
          oldP1Demand = Demand p1;
          oldP2Demand = Demand p2;
          ((v, err), ist) = GetDemand (p1TaskName G) ist;
          p1 = p1\<lparr>Demand := v\<rparr>
      in case err of
           Some e \<Rightarrow> ((False, Some e), ts, ist)
         | None \<Rightarrow>
             (let ((v, err), ist) = GetDemand (p2TaskName G) ist;
                  p2 = p2\<lparr>Demand := v\<rparr>
              in case err of
                   Some e \<Rightarrow> ((False, Some e), ts, ist)
                 | None \<Rightarrow>
                     (let demandchange = (Demand p1 \<noteq> oldP1Demand \<or> Demand p2 \<noteq> oldP2Demand);
                          ts = ts(p1TaskName G \<mapsto> p1);
                          ts = ts(p2TaskName G \<mapsto> p2)
                      in ((demandchange, None), ts, ist))))"

text \<open>
  The loop \<open>for name, task := range ts\<close> of \<open>handleDemandChange\<close>. Go does not
  specify the order in which \<open>range\<close> visits the keys of a map, and it may differ from
  one loop to the next; the order of this execution is the argument \<open>order\<close>, an
  enumeration of the keys of the map. A name that is not a key is passed over. The
  first result is the value of \<open>err\<close> when the function returns.
\<close>

fun range_ts ::
  "'s TaskScheduler \<Rightarrow> string list \<Rightarrow> ('i, 's) hworld \<Rightarrow> error option \<times> ('i, 's) hworld" where
  "range_ts s [] w = (None, w)"
| "range_ts s (name # rest) w =
     (case tasks w name of
        None \<Rightarrow> range_ts s rest w
      | Some task \<Rightarrow>
          if \<not> scaling_ready w then (None, w)
          else
            (let ((ready, err, task'), sst) = s name task (sched_st w);
                 w = w\<lparr>scaling_ready := ready, sched_st := sst,
                       issued := issued w @
                         [\<lparr>class_name = name, task_in = task, ready_before = scaling_ready w,
                           ready_after = ready, returned = err, task_out = task'\<rparr>]\<rparr>
             in case err of
                  Some e \<Rightarrow> (Some e, w)
                | None \<Rightarrow> range_ts s rest (w\<lparr>tasks := (tasks w)(name \<mapsto> task')\<rparr>)))"

definition handleDemandChange ::
  "Globals \<Rightarrow> 'i Input \<Rightarrow> 's TaskScheduler \<Rightarrow> string list \<Rightarrow> ('i, 's) hworld
     \<Rightarrow> error option \<times> ('i, 's) hworld" where
  "handleDemandChange G GetDemand s order w =
     (let ((demandChanged, err), ts, ist) = update G GetDemand (tasks w) (input_st w);
          w = w\<lparr>tasks := ts, input_st := ist\<rparr>
      in case err of
           Some e \<Rightarrow> (Some e, w)
         | None \<Rightarrow> if demandChanged then range_ts s order w else (None, w))"

text \<open>Consecutive ticks of the handler, each with the order its \<open>range\<close> takes.\<close>

fun ticks ::
  "Globals \<Rightarrow> 'i Input \<Rightarrow> 's TaskScheduler \<Rightarrow> string list list \<Rightarrow> ('i, 's) hworld
     \<Rightarrow> ('i, 's) hworld" where
  "ticks G GetDemand s [] w = w"
| "ticks G GetDemand s (order # orders) w =
     ticks G GetDemand s orders (snd (handleDemandChange G GetDemand s order w))"

text \<open>The calls a step added to the record of issued calls.\<close>

definition new_issues :: "('i, 's) hworld \<Rightarrow> ('i, 's) hworld \<Rightarrow> issue list" where
  "new_issues w w' = drop (length (issued w)) (issued w')"

definition new_calls :: "('i, 's, 'h) world \<Rightarrow> ('i, 's, 'h) world \<Rightarrow> call list" where
  "new_calls w w' = drop (length (calls w)) (calls w')"

section \<open>Concrete collaborators for evaluation\<close>

text \<open>A demand source that answers from a script, one entry per call.\<close>

fun scripted :: "(go_int \<times> error option) list Input" where
  "scripted name [] = ((0, Some ''no more samples''), [])"
| "scripted name (r # rs) = (r, rs)"

text \<open>
  Schedulers without state: every operation succeeds, except \<open>StopStartNTasks\<close> for
  the classes listed in \<open>bad\<close>, which returns an error.
\<close>

definition failing_for :: "string list \<Rightarrow> unit Scheduler" where
  "failing_for bad =
     \<lparr>InitScheduler = (\<lambda>name u. (None, u)),
      StopStartNTasks = (\<lambda>name family demand requested u.
         (if name \<in> set bad then Some ''scheduler failure'' else None, u)),
      CountAllTasks = (\<lambda>u. ((0, 0, None), u))\<rparr>"

definition task_failing_for :: "string list \<Rightarrow> unit TaskScheduler" where
  "task_failing_for bad = (\<lambda>name task u.
     ((True, if name \<in> set bad then Some ''scheduler failure'' else None,
       task\<lparr>Requested := Demand task\<rparr>), u))"

definition default_names :: Globals where
  "default_names =
     \<lparr>p1TaskName = ''priority1-demand'', p2TaskName = ''priority2-demand'',
      p1FamilyName = [], p2FamilyName = []\<rparr>"

text \<open>The struct as \<open>main\<close> seeds it: \<open>set(const_p1demandstart, const_p2demandstart)\<close>.\<close>

definition seeded :: Demand where
  "seeded = \<lparr>p1demand = 5, p2demand = 4, p1requested = 0, p2requested = 0\<rparr>"

definition http_answering :: "Response option \<times> error option \<Rightarrow> unit Http" where
  "http_answering r =
     \<lparr>Now = (\<lambda>u. 0), Encode = (\<lambda>p. None), NewRequest = (\<lambda>m url. None),
      Do = (\<lambda>url p u. (r, u))\<rparr>"

text \<open>A task map with the two classes at the start-up demands, and a handler state over it.\<close>

definition two_tasks :: "string \<rightharpoonup> Task" where
  "two_tasks =
     [''priority1-demand'' \<mapsto> zero_Task\<lparr>Name := ''priority1-demand'', Demand := 5\<rparr>,
      ''priority2-demand'' \<mapsto> zero_Task\<lparr>Name := ''priority2-demand'', Demand := 4\<rparr>]"

definition hstart ::
  "bool \<Rightarrow> (go_int \<times> error option) list \<Rightarrow> ((go_int \<times> error option) list, unit) hworld" where
  "hstart ready script =
     \<lparr>tasks = two_tasks, scaling_ready = ready, input_st = script, sched_st = (), issued = []\<rparr>"

text \<open>A state at the head of the loop of \<open>main\<close>, over the seeded struct.\<close>

definition mstart ::
  "(go_int \<times> error option) list \<Rightarrow> ((go_int \<times> error option) list, unit, unit) world" where
  "mstart script =
     \<lparr>currentdemand = seeded, demandchangeflag = True, sleepcount = 0, input_state = script,
      sched_state = (), http_state = (), calls = []\<rparr>"

section \<open>Hypotheses of the claims, as predicates\<close>

text \<open>The clamp of the specification's allocation policy, written from its words.\<close>

definition clamp :: "go_int \<Rightarrow> go_int \<Rightarrow> go_int \<Rightarrow> go_int" where
  "clamp x lo hi = (if x <s lo then lo else if hi <s x then hi else x)"

text \<open>
  Unchanged demand over the next \<open>n\<close> samples: each sample of the handler asks the
  source for the first class and then for the second, and gets \<open>v1\<close> and \<open>v2\<close>
  without error.
\<close>

fun steady_source :: "Globals \<Rightarrow> 'i Input \<Rightarrow> go_int \<Rightarrow> go_int \<Rightarrow> nat \<Rightarrow> 'i \<Rightarrow> bool" where
  "steady_source G GetDemand v1 v2 0 ist = True"
| "steady_source G GetDemand v1 v2 (Suc n) ist =
     (case GetDemand (p1TaskName G) ist of
        ((a, e1), ist1) \<Rightarrow>
          a = v1 \<and> e1 = None \<and>
          (case GetDemand (p2TaskName G) ist1 of
             ((b, e2), ist2) \<Rightarrow> b = v2 \<and> e2 = None \<and> steady_source G GetDemand v1 v2 n ist2))"

text \<open>The same for main.go, whose sample asks once, for \<open>priority1-demand\<close>.\<close>

fun steady_p1 :: "'i Input \<Rightarrow> go_int \<Rightarrow> nat \<Rightarrow> 'i \<Rightarrow> bool" where
  "steady_p1 GetDemand r 0 ist = True"
| "steady_p1 GetDemand r (Suc n) ist =
     (case GetDemand ''priority1-demand'' ist of
        ((a, e), ist1) \<Rightarrow> a = r \<and> e = None \<and> steady_p1 GetDemand r n ist1)"

text \<open>
  A sample of the handler fails when the first query returns an error, or the first
  succeeds and the second, made on the source as the first left it, returns one.
\<close>

definition sample_fails :: "Globals \<Rightarrow> 'i Input \<Rightarrow> 'i \<Rightarrow> bool" where
  "sample_fails G GetDemand ist \<longleftrightarrow>
     snd (fst (GetDemand (p1TaskName G) ist)) \<noteq> None
     \<or> snd (fst (GetDemand (p2TaskName G) (snd (GetDemand (p1TaskName G) ist)))) \<noteq> None"

section \<open>The demand sample of main.go\<close>

lemma in_range_not_sentinel:
  assumes "0 \<le>s (r::go_int)" and "r \<le>s 9"
  shows "r \<noteq> - 1" and "9 - r \<noteq> - 1"
proof -
  from assms(1) show "r \<noteq> - 1" by (auto simp add: word_sle_eq)
  have "r \<noteq> 10" using assms(2) by (auto simp add: word_sle_eq)
  then show "9 - r \<noteq> - 1" by simp
qed

lemma update_Demand_ok:
  assumes "GetDemand ''priority1-demand'' ist = ((r, None), ist')"
  shows "update_Demand GetDemand d ist =
          (r \<noteq> p1demand d \<or> const_maxcontainers - r \<noteq> p2demand d,
           snd (set_Demand r (const_maxcontainers - r) d), ist')"
  using assms by (simp add: update_Demand_def set_Demand_def Let_def)

lemma update_Demand_error:
  assumes "GetDemand ''priority1-demand'' ist = ((r, Some e), ist')"
  shows "update_Demand GetDemand d ist = (False, d, ist')"
  using assms by (simp add: update_Demand_def)

text \<open>
  \<open>Demand.update\<close> applies no clamp: a raw demand of 12 is stored as 12 and
  priority 2 gets \<open>9 - 12 = -3\<close>.
\<close>

lemma example_no_clamp_above_capacity:
  "get_Demand (fst (snd (update_Demand scripted seeded [(12, None)]))) = (12, - 3)
   \<and> clamp 12 0 const_maxcontainers = 9"
  by (simp add: update_Demand_def set_Demand_def const_maxcontainers_def clamp_def seeded_def
        word_sless_alt get_Demand_def)

text \<open>
  C2. The stored demands should add up to the capacity and lie between 0 and the
  capacity after every successful sample. From the seeded struct \<open>(5, 4)\<close>, a raw
  demand of 10 gives \<open>p2 = 9 - 10 = -1\<close>, which \<open>set\<close> reads as "do not update": the
  struct becomes \<open>(10, 4)\<close>, with \<open>p1\<close> above the capacity and a sum of 14.
\<close>

theorem C2_sample_above_capacity:
  "update_Demand scripted seeded [(10, None)]
     = (True, \<lparr>p1demand = 10, p2demand = 4, p1requested = 0, p2requested = 0\<rparr>, [])
   \<and> 0 \<le>s (10::go_int)
   \<and> (10::go_int) + 4 \<noteq> const_maxcontainers
   \<and> \<not> (10::go_int) \<le>s const_maxcontainers"
  by (simp add: update_Demand_def set_Demand_def const_maxcontainers_def seeded_def word_sle_eq)

theorem C2_sample_above_capacity_witness:
  "p1demand (fst (snd (update_Demand scripted seeded [(10, None)])))
     + p2demand (fst (snd (update_Demand scripted seeded [(10, None)]))) = 14"
  using C2_sample_above_capacity by simp

text \<open>
  The struct \<open>(10, 4)\<close> stays as it is when 10 is sampled again, and the sample
  reports a change again, since the computed \<open>-1\<close> is compared with the stored 4.
\<close>

lemma example_sentinel_repeats:
  "update_Demand scripted \<lparr>p1demand = 10, p2demand = 4, p1requested = 0, p2requested = 0\<rparr>
      [(10, None)]
     = (True, \<lparr>p1demand = 10, p2demand = 4, p1requested = 0, p2requested = 0\<rparr>, [])"
  by (simp add: update_Demand_def set_Demand_def const_maxcontainers_def)

section \<open>main.go: the sampling half of the loop body\<close>

lemma update_Demand_same:
  assumes "GetDemand ''priority1-demand'' ist = ((r, None), ist')"
    and "r = p1demand d" and "const_maxcontainers - r = p2demand d"
  shows "update_Demand GetDemand d ist = (False, d, ist')"
  using assms by (simp add: update_Demand_ok [of GetDemand ist r ist' d] set_Demand_def)

lemma reconcile_step_unchanged:
  assumes "fst (update_Demand GetDemand (currentdemand m) (input_state m)) = False"
  shows "reconcile_step G GetDemand S m =
           m\<lparr>demandchangeflag := False,
             currentdemand := fst (snd (update_Demand GetDemand (currentdemand m) (input_state m))),
             input_state := snd (snd (update_Demand GetDemand (currentdemand m) (input_state m)))\<rparr>"
  using assms by (cases "update_Demand GetDemand (currentdemand m) (input_state m)")
    (simp add: reconcile_step_def)

lemma reconcile_step_changed:
  assumes "fst (update_Demand GetDemand (currentdemand m) (input_state m)) = True"
  shows "new_calls m (reconcile_step G GetDemand S m) =
    [CountAllTasksCall,
     StopStartNTasksCall (p1TaskName G) (p1FamilyName G)
       (p1demand (currentdemand (reconcile_step G GetDemand S m)))
       (p1requested (currentdemand (reconcile_step G GetDemand S m))),
     StopStartNTasksCall (p2TaskName G) (p2FamilyName G)
       (p2demand (currentdemand (reconcile_step G GetDemand S m)))
       (p2requested (currentdemand (reconcile_step G GetDemand S m)))]"
  using assms by (cases "update_Demand GetDemand (currentdemand m) (input_state m)")
    (simp add: reconcile_step_def handle_Demand_def new_calls_def Let_def split: prod.splits)

lemma reconcile_step_flag_dead:
  "reconcile_step G GetDemand S (w\<lparr>demandchangeflag := b\<rparr>) = reconcile_step G GetDemand S w"
  by (simp add: reconcile_step_def Let_def split: prod.splits)

text \<open>
  As written, \<open>main\<close> does not get past its first \<open>InitScheduler\<close> call, whatever the
  configuration and the collaborators.
\<close>

lemma main_init_panics: "main_init G GetDemand s ist sst hst = Panics"
  by (simp add: main_init_def Let_def split: prod.splits)

text \<open>The struct as lines 259 to 262 leave it.\<close>

lemma seeded_by_set:
  "snd (set_Demand const_p1demandstart const_p2demandstart
         \<lparr>p1demand = 0, p2demand = 0, p1requested = 0, p2requested = 0\<rparr>) = seeded"
  by (simp add: set_Demand_def const_p1demandstart_def const_p2demandstart_def seeded_def)

section \<open>The cycle of handleDemandChange\<close>

lemma new_issues_append: "issued w' = issued w @ new \<Longrightarrow> new_issues w w' = new"
  by (simp add: new_issues_def)

lemma range_ts_not_ready:
  "\<not> scaling_ready w \<Longrightarrow> range_ts s order w = (None, w)"
  by (induction order) (auto split: option.splits)

lemma range_ts_other:
  "name \<notin> set order \<Longrightarrow> tasks (snd (range_ts s order w)) name = tasks w name"
  by (induction order arbitrary: w) (auto simp add: Let_def split: prod.splits option.splits)

lemma range_ts_trace:
  "\<exists>new. issued (snd (range_ts s order w)) = issued w @ new
         \<and> list_all ready_before new
         \<and> list_all (\<lambda>e. returned e = None) (butlast new)
         \<and> fst (range_ts s order w) = (if new = [] then None else returned (last new))
         \<and> map class_name new = take (length new) (filter (\<lambda>n. n \<in> dom (tasks w)) order)"
proof (induction order arbitrary: w)
  case Nil
  then show ?case by simp
next
  case (Cons name rest)
  show ?case
  proof (cases "tasks w name")
    case None
    then have "name \<notin> dom (tasks w)" by auto
    then show ?thesis using None Cons.IH [of w] by simp
  next
    case (Some task)
    then have indom: "name \<in> dom (tasks w)" by auto
    show ?thesis
    proof (cases "scaling_ready w")
      case False
      then show ?thesis using Some by simp
    next
      case True
      obtain ready err task' sst where call: "s name task (sched_st w) = ((ready, err, task'), sst)"
        by (metis prod_cases3 surj_pair)
      define e where "e = \<lparr>class_name = name, task_in = task, ready_before = True,
                           ready_after = ready, returned = err, task_out = task'\<rparr>"
      define w1 where "w1 = w\<lparr>scaling_ready := ready, sched_st := sst, issued := issued w @ [e]\<rparr>"
      show ?thesis
      proof (cases err)
        case (Some x)
        then have "range_ts s (name # rest) w = (Some x, w1)"
          using \<open>tasks w name = Some task\<close> True call by (simp add: w1_def e_def)
        then show ?thesis using indom Some
          by (intro exI [of _ "[e]"]) (simp add: w1_def e_def)
      next
        case None
        define w2 where "w2 = w1\<lparr>tasks := (tasks w1)(name \<mapsto> task')\<rparr>"
        have step: "range_ts s (name # rest) w = range_ts s rest w2"
          using \<open>tasks w name = Some task\<close> True call None by (simp add: w1_def w2_def e_def)
        have dom2: "dom (tasks w2) = dom (tasks w)" using indom by (auto simp add: w2_def w1_def)
        obtain new where new: "issued (snd (range_ts s rest w2)) = issued w2 @ new"
          "list_all ready_before new"
          "list_all (\<lambda>e. returned e = None) (butlast new)"
          "fst (range_ts s rest w2) = (if new = [] then None else returned (last new))"
          "map class_name new = take (length new) (filter (\<lambda>n. n \<in> dom (tasks w2)) rest)"
          using Cons.IH [of w2] by blast
        have "issued (snd (range_ts s (name # rest) w)) = issued w @ (e # new)"
          using new(1) step by (simp add: w2_def w1_def)
        moreover have "list_all ready_before (e # new)"
          using new(2) by (simp add: e_def)
        moreover have "list_all (\<lambda>e. returned e = None) (butlast (e # new))"
          using new(3) None by (simp add: e_def)
        moreover have "fst (range_ts s (name # rest) w)
            = (if e # new = [] then None else returned (last (e # new)))"
          using new(4) None step by (simp add: e_def)
        moreover have "map class_name (e # new)
            = take (length (e # new)) (filter (\<lambda>n. n \<in> dom (tasks w)) (name # rest))"
          using new(5) indom dom2 by (simp add: e_def)
        ultimately show ?thesis by blast
      qed
    qed
  qed
qed

lemma range_ts_issued:
  "issued (snd (range_ts s order w)) = issued w @ new_issues w (snd (range_ts s order w))"
  using range_ts_trace [of s order w] by (auto simp add: new_issues_def)

lemma range_ts_classes:
  "set (map class_name (new_issues w (snd (range_ts s order w)))) \<subseteq> set order"
proof -
  obtain new where new: "issued (snd (range_ts s order w)) = issued w @ new"
    "map class_name new = take (length new) (filter (\<lambda>n. n \<in> dom (tasks w)) order)"
    using range_ts_trace [of s order w] by blast
  have "set (map class_name new) \<subseteq> set (filter (\<lambda>n. n \<in> dom (tasks w)) order)"
    unfolding new(2) by (rule set_take_subset)
  then show ?thesis using new(1) by (auto simp add: new_issues_def)
qed

lemma update_fails_first:
  assumes "GetDemand (p1TaskName G) ist = ((v1, Some e), ist1)"
  shows "update G GetDemand ts ist = ((False, Some e), ts, ist1)"
  using assms by (simp add: update_def Let_def)

lemma update_fails_second:
  assumes "GetDemand (p1TaskName G) ist = ((v1, None), ist1)"
    and "GetDemand (p2TaskName G) ist1 = ((v2, Some e), ist2)"
  shows "update G GetDemand ts ist = ((False, Some e), ts, ist2)"
  using assms by (simp add: update_def Let_def)

lemma update_succeeds:
  assumes "GetDemand (p1TaskName G) ist = ((v1, None), ist1)"
    and "GetDemand (p2TaskName G) ist1 = ((v2, None), ist2)"
  shows "update G GetDemand ts ist =
           ((v1 \<noteq> Demand (index_ts ts (p1TaskName G)) \<or> v2 \<noteq> Demand (index_ts ts (p2TaskName G)),
             None),
            ts(p1TaskName G \<mapsto> (index_ts ts (p1TaskName G))\<lparr>Demand := v1\<rparr>,
               p2TaskName G \<mapsto> (index_ts ts (p2TaskName G))\<lparr>Demand := v2\<rparr>),
            ist2)"
  using assms by (simp add: update_def Let_def)

lemma update_cases:
  obtains
    (failed) e ist' where "update G GetDemand ts ist = ((False, Some e), ts, ist')"
      "sample_fails G GetDemand ist"
  | (ok) ch ts' ist' where "update G GetDemand ts ist = ((ch, None), ts', ist')"
      "dom ts' = dom ts \<union> {p1TaskName G, p2TaskName G}"
      "\<not> sample_fails G GetDemand ist"
proof -
  obtain v1 e1 ist1 where g1: "GetDemand (p1TaskName G) ist = ((v1, e1), ist1)"
    by (metis surj_pair)
  obtain v2 e2 ist2 where g2: "GetDemand (p2TaskName G) ist1 = ((v2, e2), ist2)"
    by (metis surj_pair)
  show thesis
  proof (cases e1)
    case (Some e)
    then show ?thesis
      using failed [of e ist1] update_fails_first [of GetDemand G ist v1 e ist1 ts] g1
      by (simp add: sample_fails_def)
  next
    case None
    note e1 = None
    show ?thesis
    proof (cases e2)
      case (Some e)
      then show ?thesis
        using failed [of e ist2] update_fails_second [of GetDemand G ist v1 ist1 v2 e ist2 ts] g1 g2 e1
        by (simp add: sample_fails_def)
    next
      case None
      have u: "update G GetDemand ts ist =
           ((v1 \<noteq> Demand (index_ts ts (p1TaskName G)) \<or> v2 \<noteq> Demand (index_ts ts (p2TaskName G)),
             None),
            ts(p1TaskName G \<mapsto> (index_ts ts (p1TaskName G))\<lparr>Demand := v1\<rparr>,
               p2TaskName G \<mapsto> (index_ts ts (p2TaskName G))\<lparr>Demand := v2\<rparr>),
            ist2)"
        using g1 g2 e1 None update_succeeds [of GetDemand G ist v1 ist1 v2 ist2 ts] by simp
      show ?thesis
        by (rule ok [OF u]) (use g1 g2 e1 None in \<open>auto simp add: sample_fails_def\<close>)
    qed
  qed
qed

text \<open>
  C1 (as amended). \<open>Demand.update\<close> of main.go: for a raw priority-1 demand \<open>r\<close>
  with \<open>0 \<le> r \<le> capacity\<close> it stores \<open>p1 = r\<close>, which is
  \<open>clamp(r, 0, capacity)\<close> there, and \<open>p2 = capacity - p1\<close>. \<open>update\<close> of the handler
  file allocates nothing: when both queries succeed it stores for priority 2 the
  demand the second query returned and, the two class names being different, for
  priority 1 the demand the first returned. Nothing is stated for \<open>Demand.update\<close>
  outside that range.
\<close>

theorem C1_sample_stores:
  "(0 \<le>s r \<and> r \<le>s const_maxcontainers
      \<and> GetDemand ''priority1-demand'' ist = ((r, None), ist') \<longrightarrow>
        p1demand (fst (snd (update_Demand GetDemand d ist))) = clamp r 0 const_maxcontainers
        \<and> p2demand (fst (snd (update_Demand GetDemand d ist)))
            = const_maxcontainers - p1demand (fst (snd (update_Demand GetDemand d ist))))
   \<and> (GetDemand' (p1TaskName G) jst = ((v1, None), jst1)
      \<and> GetDemand' (p2TaskName G) jst1 = ((v2, None), jst2) \<longrightarrow>
        Demand (index_ts (fst (snd (update G GetDemand' ts jst))) (p2TaskName G)) = v2
        \<and> (p1TaskName G \<noteq> p2TaskName G \<longrightarrow>
             Demand (index_ts (fst (snd (update G GetDemand' ts jst))) (p1TaskName G)) = v1))"
proof (intro conjI impI)
  assume a: "0 \<le>s r \<and> r \<le>s const_maxcontainers
      \<and> GetDemand ''priority1-demand'' ist = ((r, None), ist')"
  then have r0: "0 \<le>s r" and r9: "r \<le>s 9" by (simp_all add: const_maxcontainers_def)
  note ns = in_range_not_sentinel [OF r0 r9]
  have c: "clamp r 0 const_maxcontainers = r"
    using r0 r9 by (auto simp add: clamp_def const_maxcontainers_def word_sless_alt word_sle_eq)
  have u: "update_Demand GetDemand d ist =
          (r \<noteq> p1demand d \<or> const_maxcontainers - r \<noteq> p2demand d,
           snd (set_Demand r (const_maxcontainers - r) d), ist')"
    by (rule update_Demand_ok) (use a in blast)
  show "p1demand (fst (snd (update_Demand GetDemand d ist))) = clamp r 0 const_maxcontainers"
    using ns c by (simp add: u set_Demand_def const_maxcontainers_def)
  show "p2demand (fst (snd (update_Demand GetDemand d ist)))
            = const_maxcontainers - p1demand (fst (snd (update_Demand GetDemand d ist)))"
    using ns c by (simp add: u set_Demand_def const_maxcontainers_def)
next
  assume b: "GetDemand' (p1TaskName G) jst = ((v1, None), jst1)
      \<and> GetDemand' (p2TaskName G) jst1 = ((v2, None), jst2)"
  have u: "update G GetDemand' ts jst =
           ((v1 \<noteq> Demand (index_ts ts (p1TaskName G)) \<or> v2 \<noteq> Demand (index_ts ts (p2TaskName G)),
             None),
            ts(p1TaskName G \<mapsto> (index_ts ts (p1TaskName G))\<lparr>Demand := v1\<rparr>,
               p2TaskName G \<mapsto> (index_ts ts (p2TaskName G))\<lparr>Demand := v2\<rparr>),
            jst2)"
    by (rule update_succeeds [of GetDemand' G jst v1 jst1 v2 jst2 ts]) (use b in blast)+
  show "Demand (index_ts (fst (snd (update G GetDemand' ts jst))) (p2TaskName G)) = v2"
    by (simp add: u index_ts_def)
  assume "p1TaskName G \<noteq> p2TaskName G"
  then show "Demand (index_ts (fst (snd (update G GetDemand' ts jst))) (p1TaskName G)) = v1"
    by (simp add: u index_ts_def)
qed

theorem C1_sample_stores_witness:
  "0 \<le>s (7::go_int) \<and> 7 \<le>s const_maxcontainers
   \<and> scripted ''priority1-demand'' [(7, None)] = ((7, None), [])
   \<and> get_Demand (fst (snd (update_Demand scripted seeded [(7, None)]))) = (7, 2)
   \<and> scripted (p1TaskName default_names) [(7, None), (2, None)] = ((7, None), [(2, None)])
   \<and> scripted (p2TaskName default_names) [(2, None)] = ((2, None), [])
   \<and> p1TaskName default_names \<noteq> p2TaskName default_names
   \<and> Demand (index_ts (fst (snd (update default_names scripted two_tasks [(7, None), (2, None)])))
        ''priority1-demand'') = 7
   \<and> Demand (index_ts (fst (snd (update default_names scripted two_tasks [(7, None), (2, None)])))
        ''priority2-demand'') = 2"
  using C1_sample_stores [of 7 scripted "[(7, None)]" "[]" seeded scripted default_names
      "[(7, None), (2, None)]" 7 "[(2, None)]" 2 "[]" two_tasks]
  by (simp add: const_maxcontainers_def clamp_def word_sless_alt word_sle_eq default_names_def
        get_Demand_def)

text \<open>
  C1 as stated fails for \<open>update\<close> of the handler file: with 7 returned for
  priority 1 and 5 for priority 2, both in range, it stores 5 for priority 2, not
  \<open>9 - 7 = 2\<close>.
\<close>

theorem C1_handler_counterexample:
  "Demand (index_ts (fst (snd (update default_names scripted two_tasks [(7, None), (5, None)])))
        ''priority1-demand'') = 7
   \<and> Demand (index_ts (fst (snd (update default_names scripted two_tasks [(7, None), (5, None)])))
        ''priority2-demand'') = 5
   \<and> clamp 7 0 const_maxcontainers = 7
   \<and> const_maxcontainers - clamp 7 0 const_maxcontainers = 2
   \<and> Demand (index_ts (fst (snd (update default_names scripted two_tasks [(7, None), (5, None)])))
        ''priority2-demand'')
       \<noteq> const_maxcontainers - clamp 7 0 const_maxcontainers"
  by (simp add: update_def default_names_def two_tasks_def index_ts_def zero_Task_def
        const_maxcontainers_def clamp_def word_sless_alt)

lemma handleDemandChange_cases:
  obtains
    (failed) e ist' where
      "update G GetDemand (tasks w) (input_st w) = ((False, Some e), tasks w, ist')"
      "handleDemandChange G GetDemand s order w = (Some e, w\<lparr>input_st := ist'\<rparr>)"
  | (same) ts ist' where
      "update G GetDemand (tasks w) (input_st w) = ((False, None), ts, ist')"
      "handleDemandChange G GetDemand s order w = (None, w\<lparr>tasks := ts, input_st := ist'\<rparr>)"
  | (changed) ts ist' where
      "update G GetDemand (tasks w) (input_st w) = ((True, None), ts, ist')"
      "dom ts = dom (tasks w) \<union> {p1TaskName G, p2TaskName G}"
      "handleDemandChange G GetDemand s order w
         = range_ts s order (w\<lparr>tasks := ts, input_st := ist'\<rparr>)"
proof (cases rule: update_cases [of G GetDemand "tasks w" "input_st w"])
  case (failed e ist')
  then show ?thesis using that(1) [of e ist'] by (simp add: handleDemandChange_def)
next
  case (ok ch ts' ist')
  show ?thesis
  proof (cases ch)
    case True
    then show ?thesis using that(3) [of ts' ist'] ok by (simp add: handleDemandChange_def)
  next
    case False
    then show ?thesis using that(2) [of ts' ist'] ok by (simp add: handleDemandChange_def)
  qed
qed

lemma handleDemandChange_trace:
  "\<exists>new. issued (snd (handleDemandChange G GetDemand s order w)) = issued w @ new
         \<and> list_all ready_before new
         \<and> list_all (\<lambda>e. returned e = None) (butlast new)
         \<and> (new \<noteq> [] \<longrightarrow> fst (handleDemandChange G GetDemand s order w) = returned (last new))
         \<and> (\<not> scaling_ready w \<longrightarrow> new = [])
         \<and> map class_name new = take (length new)
              (filter (\<lambda>n. n \<in> dom (tasks w) \<union> {p1TaskName G, p2TaskName G}) order)"
proof (cases rule: handleDemandChange_cases [of G GetDemand w s order])
  case (failed e ist')
  then show ?thesis by simp
next
  case (same ts ist')
  then show ?thesis by simp
next
  case (changed ts ist')
  define w1 where "w1 = w\<lparr>tasks := ts, input_st := ist'\<rparr>"
  obtain new where new: "issued (snd (range_ts s order w1)) = issued w1 @ new"
    "list_all ready_before new"
    "list_all (\<lambda>e. returned e = None) (butlast new)"
    "fst (range_ts s order w1) = (if new = [] then None else returned (last new))"
    "map class_name new = take (length new) (filter (\<lambda>n. n \<in> dom (tasks w1)) order)"
    using range_ts_trace [of s order w1] by blast
  have "\<not> scaling_ready w \<longrightarrow> new = []"
    using new(1) range_ts_not_ready [of w1 s order] by (auto simp add: w1_def)
  then show ?thesis
    using new changed by (intro exI [of _ new]) (simp add: w1_def)
qed

lemma range_ts_commit:
  "distinct order \<Longrightarrow> e \<in> set (new_issues w (snd (range_ts s order w))) \<Longrightarrow>
     tasks w (class_name e) = Some (task_in e)
     \<and> tasks (snd (range_ts s order w)) (class_name e)
         = Some (if returned e = None then task_out e else task_in e)"
proof (induction order arbitrary: w)
  case Nil
  then show ?case by (simp add: new_issues_def)
next
  case (Cons name rest)
  from Cons.prems have dist: "distinct rest" and notin: "name \<notin> set rest" by auto
  show ?case
  proof (cases "tasks w name")
    case None
    then show ?thesis using Cons.IH [OF dist, of w] Cons.prems(2) by simp
  next
    case (Some task)
    show ?thesis
    proof (cases "scaling_ready w")
      case False
      then show ?thesis using Some Cons.prems(2) by (simp add: new_issues_def)
    next
      case True
      obtain ready err task' sst where call: "s name task (sched_st w) = ((ready, err, task'), sst)"
        by (metis prod_cases3 surj_pair)
      define e0 where "e0 = \<lparr>class_name = name, task_in = task, ready_before = True,
                           ready_after = ready, returned = err, task_out = task'\<rparr>"
      define w1 where "w1 = w\<lparr>scaling_ready := ready, sched_st := sst, issued := issued w @ [e0]\<rparr>"
      show ?thesis
      proof (cases err)
        case (Some x)
        then have res: "range_ts s (name # rest) w = (Some x, w1)"
          using \<open>tasks w name = Some task\<close> True call by (simp add: w1_def e0_def)
        then have "e = e0" using Cons.prems(2) by (simp add: new_issues_def w1_def)
        then show ?thesis using res Some \<open>tasks w name = Some task\<close> by (simp add: e0_def w1_def)
      next
        case None
        define w2 where "w2 = w1\<lparr>tasks := (tasks w1)(name \<mapsto> task')\<rparr>"
        have step: "range_ts s (name # rest) w = range_ts s rest w2"
          using \<open>tasks w name = Some task\<close> True call None by (simp add: w1_def w2_def e0_def)
        have iss: "issued (snd (range_ts s rest w2)) = issued w @ e0 # new_issues w2 (snd (range_ts s rest w2))"
          using range_ts_issued [of s rest w2] by (simp add: w2_def w1_def)
        then have new: "new_issues w (snd (range_ts s (name # rest) w))
                 = e0 # new_issues w2 (snd (range_ts s rest w2))"
          unfolding step by (rule new_issues_append)
        from Cons.prems(2) new consider "e = e0" | "e \<in> set (new_issues w2 (snd (range_ts s rest w2)))"
          by auto
        then show ?thesis
        proof cases
          case 1
          have "tasks (snd (range_ts s rest w2)) name = tasks w2 name"
            using notin by (rule range_ts_other)
          then show ?thesis using 1 None \<open>tasks w name = Some task\<close> step
            by (simp add: e0_def w2_def w1_def)
        next
          case 2
          have "class_name e \<in> set rest" using 2 range_ts_classes [of w2 s rest] by auto
          then have ne: "class_name e \<noteq> name" using notin by auto
          then have "tasks w2 (class_name e) = tasks w (class_name e)" by (simp add: w2_def w1_def)
          then show ?thesis using Cons.IH [OF dist 2] step by simp
        qed
      qed
    qed
  qed
qed


text \<open>
  C3. Every \<open>StopStartNTasks\<close> call of a cycle is issued with the readiness flag
  true, and a cycle that starts with the flag false issues no call at all, whether or
  not the demand changed. The flag is read from \<open>*scaling_ready\<close> right before each
  call; the model is sequential, as the handler is.
\<close>

theorem C3_single_flight:
  "issued (snd (handleDemandChange G GetDemand s order w))
     = issued w @ new_issues w (snd (handleDemandChange G GetDemand s order w))
   \<and> list_all ready_before (new_issues w (snd (handleDemandChange G GetDemand s order w)))
   \<and> (\<not> scaling_ready w \<longrightarrow> new_issues w (snd (handleDemandChange G GetDemand s order w)) = [])"
proof -
  obtain new where new: "issued (snd (handleDemandChange G GetDemand s order w)) = issued w @ new"
    "list_all ready_before new" "\<not> scaling_ready w \<longrightarrow> new = []"
    using handleDemandChange_trace [of G GetDemand s order w] by blast
  have "new_issues w (snd (handleDemandChange G GetDemand s order w)) = new"
    using new(1) by (rule new_issues_append)
  then show ?thesis using new by simp
qed

theorem C3_single_flight_witness:
  "\<not> scaling_ready (hstart False [(7, None), (2, None)])
   \<and> fst (update default_names scripted (tasks (hstart False [(7, None), (2, None)]))
            [(7, None), (2, None)]) = (True, None)
   \<and> new_issues (hstart False [(7, None), (2, None)])
        (snd (handleDemandChange default_names scripted (task_failing_for [])
               [''priority1-demand'', ''priority2-demand''] (hstart False [(7, None), (2, None)]))) = []"
  using C3_single_flight [of default_names scripted "task_failing_for []"
      "[''priority1-demand'', ''priority2-demand'']" "hstart False [(7, None), (2, None)]"]
  by (simp add: hstart_def update_def default_names_def two_tasks_def index_ts_def zero_Task_def)

text \<open>With the flag true and a changed demand, both classes are called, each with the flag true.\<close>

lemma example_ready_cycle:
  "map (\<lambda>e. (class_name e, ready_before e))
     (issued (snd (handleDemandChange default_names scripted (task_failing_for [])
               [''priority1-demand'', ''priority2-demand''] (hstart True [(7, None), (2, None)]))))
   = [(''priority1-demand'', True), (''priority2-demand'', True)]"
  by (simp add: handleDemandChange_def hstart_def update_def default_names_def two_tasks_def
        index_ts_def zero_Task_def task_failing_for_def)

text \<open>
  C4 (as amended). In \<open>handleDemandChange\<close> a call that returns an error is the last
  call of its cycle, so no class is attempted after a failed one; and every class
  whose call returned without error in the cycle has the task the scheduler gave
  back stored in the map. The order of the classes is the one the \<open>range\<close> takes.
\<close>

theorem C4_failed_call_is_last:
  assumes "distinct order"
  shows "(\<forall>i < length (new_issues w (snd (handleDemandChange G GetDemand s order w))).
            returned (new_issues w (snd (handleDemandChange G GetDemand s order w)) ! i) \<noteq> None
            \<longrightarrow> Suc i = length (new_issues w (snd (handleDemandChange G GetDemand s order w))))
       \<and> (\<forall>e \<in> set (new_issues w (snd (handleDemandChange G GetDemand s order w))).
            returned e = None
            \<longrightarrow> tasks (snd (handleDemandChange G GetDemand s order w)) (class_name e)
                  = Some (task_out e))"
proof -
  let ?w' = "snd (handleDemandChange G GetDemand s order w)"
  obtain new where new: "issued ?w' = issued w @ new"
    "list_all (\<lambda>e. returned e = None) (butlast new)"
    using handleDemandChange_trace [of G GetDemand s order w] by blast
  have n: "new_issues w ?w' = new" using new(1) by (rule new_issues_append)
  have last: "\<forall>i < length new. returned (new ! i) \<noteq> None \<longrightarrow> Suc i = length new"
  proof (intro allI impI)
    fix i assume i: "i < length new" and r: "returned (new ! i) \<noteq> None"
    show "Suc i = length new"
    proof (rule ccontr)
      assume "Suc i \<noteq> length new"
      then have "i < length (butlast new)" using i by simp
      then have "returned (butlast new ! i) = None"
        using new(2) by (simp add: list_all_length)
      then show False using r \<open>i < length (butlast new)\<close> by (simp add: nth_butlast)
    qed
  qed
  have commit: "\<forall>e \<in> set new. returned e = None \<longrightarrow> tasks ?w' (class_name e) = Some (task_out e)"
  proof (cases rule: handleDemandChange_cases [of G GetDemand w s order])
    case (failed e ist')
    then show ?thesis using new(1) by simp
  next
    case (same ts ist')
    then show ?thesis using new(1) by simp
  next
    case (changed ts ist')
    define w1 where "w1 = w\<lparr>tasks := ts, input_st := ist'\<rparr>"
    have "new_issues w1 (snd (range_ts s order w1)) = new"
      using n changed(3) by (simp add: new_issues_def w1_def)
    then show ?thesis
      using range_ts_commit [OF assms, of _ w1 s] changed(3) by (auto simp add: w1_def)
  qed
  show ?thesis using last commit n by simp
qed

theorem C4_failed_call_is_last_witness:
  "distinct [''priority2-demand'', ''priority1-demand'']
   \<and> map (\<lambda>e. (class_name e, returned e))
       (new_issues (hstart True [(7, None), (2, None)])
         (snd (handleDemandChange default_names scripted (task_failing_for [''priority1-demand''])
                [''priority2-demand'', ''priority1-demand''] (hstart True [(7, None), (2, None)]))))
     = [(''priority2-demand'', None), (''priority1-demand'', Some ''scheduler failure'')]
   \<and> map_option Requested
       (tasks (snd (handleDemandChange default_names scripted (task_failing_for [''priority1-demand''])
                [''priority2-demand'', ''priority1-demand''] (hstart True [(7, None), (2, None)])))
          ''priority2-demand'') = Some 2"
  using C4_failed_call_is_last [of "[''priority2-demand'', ''priority1-demand'']"
      "hstart True [(7, None), (2, None)]" default_names scripted
      "task_failing_for [''priority1-demand'']"]
  by (simp add: handleDemandChange_def hstart_def update_def default_names_def two_tasks_def
        index_ts_def zero_Task_def task_failing_for_def new_issues_def)

text \<open>
  C4 as stated fails for \<open>Demand.handle\<close> of main.go, which issues the priority-2
  call whatever the priority-1 call returned.
\<close>

theorem C4_handle_counterexample:
  "handle_Demand default_names (failing_for [''priority1-demand'']) seeded ((), [])
      = (Some ''scheduler failure'', (),
         [StopStartNTasksCall ''priority1-demand'' [] 5 0,
          StopStartNTasksCall ''priority2-demand'' [] 4 0])"
  by (simp add: handle_Demand_def failing_for_def default_names_def seeded_def)

text \<open>
  C5. When a query of the demand source returns an error during a sample, the sample
  reports no change and returns the error, the stored demands are exactly as before
  (also when the first class's query had succeeded), and the tick issues no scheduler
  call. The first half is the handler file, the second main.go.
\<close>

theorem C5_failed_sample_changes_nothing:
  "(sample_fails G GetDemand (input_st w) \<longrightarrow>
      fst (fst (update G GetDemand (tasks w) (input_st w))) = False
      \<and> snd (fst (update G GetDemand (tasks w) (input_st w))) \<noteq> None
      \<and> fst (snd (update G GetDemand (tasks w) (input_st w))) = tasks w
      \<and> fst (handleDemandChange G GetDemand s order w)
          = snd (fst (update G GetDemand (tasks w) (input_st w)))
      \<and> tasks (snd (handleDemandChange G GetDemand s order w)) = tasks w
      \<and> scaling_ready (snd (handleDemandChange G GetDemand s order w)) = scaling_ready w
      \<and> sched_st (snd (handleDemandChange G GetDemand s order w)) = sched_st w
      \<and> issued (snd (handleDemandChange G GetDemand s order w)) = issued w)
   \<and> (snd (fst (GetDemand' ''priority1-demand'' (input_state m))) \<noteq> None \<longrightarrow>
      fst (update_Demand GetDemand' (currentdemand m) (input_state m)) = False
      \<and> fst (snd (update_Demand GetDemand' (currentdemand m) (input_state m))) = currentdemand m
      \<and> currentdemand (reconcile_step G' GetDemand' S m) = currentdemand m
      \<and> sched_state (reconcile_step G' GetDemand' S m) = sched_state m
      \<and> calls (reconcile_step G' GetDemand' S m) = calls m)"
proof (intro conjI impI)
  assume f: "sample_fails G GetDemand (input_st w)"
  obtain e ist' where u: "update G GetDemand (tasks w) (input_st w) = ((False, Some e), tasks w, ist')"
    using f by (cases rule: update_cases [of G GetDemand "tasks w" "input_st w"]) auto
  have h: "handleDemandChange G GetDemand s order w = (Some e, w\<lparr>input_st := ist'\<rparr>)"
    using u by (simp add: handleDemandChange_def)
  show "fst (fst (update G GetDemand (tasks w) (input_st w))) = False" using u by simp
  show "snd (fst (update G GetDemand (tasks w) (input_st w))) \<noteq> None" using u by simp
  show "fst (snd (update G GetDemand (tasks w) (input_st w))) = tasks w" using u by simp
  show "fst (handleDemandChange G GetDemand s order w)
          = snd (fst (update G GetDemand (tasks w) (input_st w)))" using u h by simp
  show "tasks (snd (handleDemandChange G GetDemand s order w)) = tasks w" using h by simp
  show "scaling_ready (snd (handleDemandChange G GetDemand s order w)) = scaling_ready w"
    using h by simp
  show "sched_st (snd (handleDemandChange G GetDemand s order w)) = sched_st w" using h by simp
  show "issued (snd (handleDemandChange G GetDemand s order w)) = issued w" using h by simp
next
  assume "snd (fst (GetDemand' ''priority1-demand'' (input_state m))) \<noteq> None"
  then obtain r e ist' where g: "GetDemand' ''priority1-demand'' (input_state m) = ((r, Some e), ist')"
    by (cases "GetDemand' ''priority1-demand'' (input_state m)") auto
  have u: "update_Demand GetDemand' (currentdemand m) (input_state m) = (False, currentdemand m, ist')"
    using g by (rule update_Demand_error)
  have r: "reconcile_step G' GetDemand' S m =
          m\<lparr>demandchangeflag := False, currentdemand := currentdemand m, input_state := ist'\<rparr>"
    using reconcile_step_unchanged [of GetDemand' m G' S] u by simp
  show "fst (update_Demand GetDemand' (currentdemand m) (input_state m)) = False" using u by simp
  show "fst (snd (update_Demand GetDemand' (currentdemand m) (input_state m))) = currentdemand m"
    using u by simp
  show "currentdemand (reconcile_step G' GetDemand' S m) = currentdemand m" using r by simp
  show "sched_state (reconcile_step G' GetDemand' S m) = sched_state m" using r by simp
  show "calls (reconcile_step G' GetDemand' S m) = calls m" using r by simp
qed

theorem C5_failed_sample_changes_nothing_witness:
  "sample_fails default_names scripted [(7, None), (0, Some ''consul unreachable'')]
   \<and> snd (fst (scripted ''priority1-demand'' [(7, None), (0, Some ''consul unreachable'')])) = None
   \<and> handleDemandChange default_names scripted (task_failing_for [])
        [''priority1-demand'', ''priority2-demand'']
        (hstart True [(7, None), (0, Some ''consul unreachable'')])
      = (Some ''consul unreachable'', hstart True [])
   \<and> snd (fst (scripted ''priority1-demand'' [(0, Some ''consul unreachable'')])) \<noteq> None
   \<and> reconcile_step default_names scripted (failing_for [])
        (mstart [(0, Some ''consul unreachable'')])
      = (mstart [])\<lparr>demandchangeflag := False\<rparr>"
  using C5_failed_sample_changes_nothing [of default_names scripted
      "hstart True [(7, None), (0, Some ''consul unreachable'')]" "task_failing_for []"
      "[''priority1-demand'', ''priority2-demand'']" scripted
      "mstart [(0, Some ''consul unreachable'')]" default_names "failing_for []"]
  by (simp add: sample_fails_def default_names_def handleDemandChange_def update_def hstart_def
        two_tasks_def index_ts_def zero_Task_def reconcile_step_def update_Demand_def mstart_def)

text \<open>
  C6 (as amended). \<open>Demand.handle\<close> always issues the priority-1 call and then the
  priority-2 call. \<open>handleDemandChange\<close> issues its calls in the order its \<open>range\<close>
  over the task map takes: the classes called are an initial segment of that order.
\<close>

theorem C6_call_order:
  "snd (snd (handle_Demand G' S d (sst, cs))) =
      cs @ [StopStartNTasksCall (p1TaskName G') (p1FamilyName G') (p1demand d) (p1requested d),
            StopStartNTasksCall (p2TaskName G') (p2FamilyName G') (p2demand d) (p2requested d)]
   \<and> (set order \<subseteq> dom (tasks w) \<union> {p1TaskName G, p2TaskName G} \<longrightarrow>
        map class_name (new_issues w (snd (handleDemandChange G GetDemand s order w)))
          = take (length (new_issues w (snd (handleDemandChange G GetDemand s order w)))) order)"
proof (intro conjI impI)
  show "snd (snd (handle_Demand G' S d (sst, cs))) =
      cs @ [StopStartNTasksCall (p1TaskName G') (p1FamilyName G') (p1demand d) (p1requested d),
            StopStartNTasksCall (p2TaskName G') (p2FamilyName G') (p2demand d) (p2requested d)]"
    by (simp add: handle_Demand_def Let_def split: prod.splits)
next
  assume sub: "set order \<subseteq> dom (tasks w) \<union> {p1TaskName G, p2TaskName G}"
  let ?w' = "snd (handleDemandChange G GetDemand s order w)"
  obtain new where new: "issued ?w' = issued w @ new"
    "map class_name new = take (length new)
        (filter (\<lambda>n. n \<in> dom (tasks w) \<union> {p1TaskName G, p2TaskName G}) order)"
    using handleDemandChange_trace [of G GetDemand s order w] by blast
  have n: "new_issues w ?w' = new" using new(1) by (rule new_issues_append)
  have "filter (\<lambda>n. n \<in> dom (tasks w) \<union> {p1TaskName G, p2TaskName G}) order = order"
    using sub by (intro filter_True) auto
  then show "map class_name (new_issues w ?w') = take (length (new_issues w ?w')) order"
    using new(2) n by simp
qed

theorem C6_call_order_witness:
  "set [''priority2-demand'', ''priority1-demand'']
     \<subseteq> dom (tasks (hstart True [(7, None), (2, None)]))
         \<union> {p1TaskName default_names, p2TaskName default_names}
   \<and> map class_name
       (new_issues (hstart True [(7, None), (2, None)])
         (snd (handleDemandChange default_names scripted (task_failing_for [])
                [''priority2-demand'', ''priority1-demand''] (hstart True [(7, None), (2, None)]))))
     = [''priority2-demand'', ''priority1-demand'']"
  using C6_call_order [of default_names "failing_for []" seeded "()" "[]"
      "[''priority2-demand'', ''priority1-demand'']" "hstart True [(7, None), (2, None)]"
      default_names scripted "task_failing_for []"]
  by (simp add: handleDemandChange_def hstart_def update_def default_names_def two_tasks_def
        index_ts_def zero_Task_def task_failing_for_def new_issues_def)

text \<open>
  C6 as stated fails for \<open>handleDemandChange\<close>: over the same state, demand and
  scheduler, a \<open>range\<close> that visits priority 1 first calls priority 1 first, and one
  that visits priority 2 first calls priority 2 first. Go fixes neither.
\<close>

theorem C6_order_counterexample:
  "map class_name
     (issued (snd (handleDemandChange default_names scripted (task_failing_for [])
                [''priority1-demand'', ''priority2-demand''] (hstart True [(7, None), (2, None)]))))
     = [''priority1-demand'', ''priority2-demand'']
   \<and> map class_name
     (issued (snd (handleDemandChange default_names scripted (task_failing_for [])
                [''priority2-demand'', ''priority1-demand''] (hstart True [(7, None), (2, None)]))))
     = [''priority2-demand'', ''priority1-demand'']
   \<and> dom (tasks (hstart True [(7, None), (2, None)])) = {''priority1-demand'', ''priority2-demand''}"
  by (auto simp add: handleDemandChange_def hstart_def update_def default_names_def two_tasks_def
        index_ts_def zero_Task_def task_failing_for_def)

text \<open>
  C7. The handler should return the first error of the cycle. \<open>Demand.handle\<close> drops
  the result of the priority-2 call: with priority 1 succeeding and priority 2
  failing it returns \<open>nil\<close>.
\<close>

theorem C7_handle_drops_second_error:
  "fst (StopStartNTasks (failing_for [''priority2-demand'']) ''priority1-demand'' [] 5 0 ()) = None
   \<and> fst (StopStartNTasks (failing_for [''priority2-demand'']) ''priority2-demand'' [] 4 0 ())
      = Some ''scheduler failure''
   \<and> handle_Demand default_names (failing_for [''priority2-demand'']) seeded ((), [])
      = (None, (), [StopStartNTasksCall ''priority1-demand'' [] 5 0,
                    StopStartNTasksCall ''priority2-demand'' [] 4 0])"
  by (simp add: handle_Demand_def failing_for_def default_names_def seeded_def)

text \<open>
  \<open>handleDemandChange\<close> does return the first error: the error of the sample, or
  else the error of the last call issued, the only one that can have failed.
\<close>

lemma handleDemandChange_returns_first_error:
  "fst (handleDemandChange G GetDemand s order w) =
     (case snd (fst (update G GetDemand (tasks w) (input_st w))) of
        Some e \<Rightarrow> Some e
      | None \<Rightarrow>
          if new_issues w (snd (handleDemandChange G GetDemand s order w)) = [] then None
          else returned (last (new_issues w (snd (handleDemandChange G GetDemand s order w)))))"
proof (cases rule: handleDemandChange_cases [of G GetDemand w s order])
  case (failed e ist')
  then show ?thesis by simp
next
  case (same ts ist')
  then show ?thesis by (simp add: new_issues_def)
next
  case (changed ts ist')
  define w1 where "w1 = w\<lparr>tasks := ts, input_st := ist'\<rparr>"
  obtain new where new: "issued (snd (range_ts s order w1)) = issued w1 @ new"
    "fst (range_ts s order w1) = (if new = [] then None else returned (last new))"
    using range_ts_trace [of s order w1] by blast
  have "new_issues w (snd (range_ts s order w1)) = new"
    using new(1) by (simp add: new_issues_def w1_def)
  then show ?thesis using changed new(2) by (simp add: w1_def)
qed

lemma example_second_call_fails:
  "fst (handleDemandChange default_names scripted (task_failing_for [''priority2-demand''])
          [''priority1-demand'', ''priority2-demand''] (hstart True [(7, None), (2, None)]))
     = Some ''scheduler failure''"
  by (simp add: handleDemandChange_def hstart_def update_def default_names_def two_tasks_def
        index_ts_def zero_Task_def task_failing_for_def)

section \<open>The telemetry push\<close>

text \<open>
  C8. A failed push should be logged and the loop should go on. When the request
  cannot be sent, \<open>Do\<close> returns a \<open>nil\<close> response with the error, and
  \<open>sendStateToAPI\<close> panics at its \<open>defer\<close> before it looks at the error: the push, the
  loop iteration and the process end there.
\<close>

theorem C8_transport_error_panics:
  "fst (sendStateToAPI (failing_for []) (http_answering (None, Some ''connection refused'')) []
          seeded ((), []) ()) = Panics
   \<and> telemetry_step (failing_for []) (http_answering (None, Some ''connection refused''))
        ''true'' [] ((mstart [])\<lparr>sleepcount := 4\<rparr>) = Panics
   \<and> main_loop default_names scripted (failing_for [])
        (http_answering (None, Some ''connection refused'')) ''true'' [] (Suc 0)
        ((mstart [(5, None)])\<lparr>sleepcount := 4\<rparr>) = Panics"
  by (simp add: sendStateToAPI_def failing_for_def http_answering_def telemetry_step_def
        mstart_def const_sendstate_sleeps_def loop_body_def reconcile_step_def
        update_Demand_def set_Demand_def seeded_def const_maxcontainers_def)

text \<open>
  When a response arrives and nothing before it failed, the push succeeds exactly
  for a status of at most 204; a status of 500 is an error that the loop drops.
\<close>

lemma sendStateToAPI_status:
  assumes "CountAllTasks S sst = ((c1, c2, None), sst')"
    and "\<And>p. Encode H p = None" and "\<And>url. NewRequest H ''PUT'' url = None"
    and "\<And>url p. Do H url p hst = ((Some r, None), hst')"
  shows "fst (sendStateToAPI S H addr d (sst, cs) hst) = Returns None \<longleftrightarrow> StatusCode r \<le>s 204"
  using assms by (auto simp add: sendStateToAPI_def Let_def word_sless_alt word_sle_eq)

lemma example_status_500:
  "telemetry_step (failing_for [])
      (http_answering (Some \<lparr>StatusCode = 500, Status = ''500 Internal Server Error''\<rparr>, None))
      ''true'' [] ((mstart [])\<lparr>sleepcount := 4\<rparr>)
    = Returns ((mstart [])\<lparr>calls := [CountAllTasksCall]\<rparr>)"
  by (simp add: sendStateToAPI_def failing_for_def http_answering_def telemetry_step_def
        mstart_def const_sendstate_sleeps_def word_sless_alt)

section \<open>Unchanged demand\<close>

lemma steady_tick:
  assumes "steady_source G GetDemand v1 v2 (Suc n) (input_st w)"
    and "Demand (index_ts (tasks w) (p1TaskName G)) = v1"
    and "Demand (index_ts (tasks w) (p2TaskName G)) = v2"
  obtains w' where
    "fst (update G GetDemand (tasks w) (input_st w)) = (False, None)"
    "handleDemandChange G GetDemand s order w = (None, w')"
    "issued w' = issued w" "scaling_ready w' = scaling_ready w" "sched_st w' = sched_st w"
    "steady_source G GetDemand v1 v2 n (input_st w')"
    "Demand (index_ts (tasks w') (p1TaskName G)) = v1"
    "Demand (index_ts (tasks w') (p2TaskName G)) = v2"
proof -
  obtain a e1 ist1 where g1: "GetDemand (p1TaskName G) (input_st w) = ((a, e1), ist1)"
    by (metis surj_pair)
  obtain b e2 ist2 where g2: "GetDemand (p2TaskName G) ist1 = ((b, e2), ist2)"
    by (metis surj_pair)
  from assms(1) g1 g2 have v: "a = v1" "e1 = None" "b = v2" "e2 = None"
    and rest: "steady_source G GetDemand v1 v2 n ist2" by simp_all
  define ts' where "ts' = (tasks w)
     (p1TaskName G \<mapsto> (index_ts (tasks w) (p1TaskName G))\<lparr>Demand := v1\<rparr>,
      p2TaskName G \<mapsto> (index_ts (tasks w) (p2TaskName G))\<lparr>Demand := v2\<rparr>)"
  have u: "update G GetDemand (tasks w) (input_st w) = ((False, None), ts', ist2)"
    using update_succeeds [of GetDemand G "input_st w" v1 ist1 v2 ist2 "tasks w"] g1 g2 v assms(2,3)
    by (simp add: ts'_def)
  define w' where "w' = w\<lparr>tasks := ts', input_st := ist2\<rparr>"
  have h: "handleDemandChange G GetDemand s order w = (None, w')"
    using u by (simp add: handleDemandChange_def w'_def)
  have d1: "Demand (index_ts (tasks w') (p1TaskName G)) = v1"
    using assms(2,3) by (auto simp add: w'_def ts'_def index_ts_def)
  have d2: "Demand (index_ts (tasks w') (p2TaskName G)) = v2"
    by (simp add: w'_def ts'_def index_ts_def)
  show thesis
    by (rule that [of w']) (use u h rest d1 d2 in \<open>simp_all add: w'_def\<close>)
qed

lemma ticks_steady:
  "steady_source G GetDemand v1 v2 (length orders) (input_st w) \<Longrightarrow>
   Demand (index_ts (tasks w) (p1TaskName G)) = v1 \<Longrightarrow>
   Demand (index_ts (tasks w) (p2TaskName G)) = v2 \<Longrightarrow>
   issued (ticks G GetDemand s orders w) = issued w"
proof (induction orders arbitrary: w)
  case Nil
  then show ?case by simp
next
  case (Cons order orders)
  from Cons.prems have st: "steady_source G GetDemand v1 v2 (Suc (length orders)) (input_st w)"
    by simp
  obtain w' where w': "handleDemandChange G GetDemand s order w = (None, w')"
    "issued w' = issued w"
    "steady_source G GetDemand v1 v2 (length orders) (input_st w')"
    "Demand (index_ts (tasks w') (p1TaskName G)) = v1"
    "Demand (index_ts (tasks w') (p2TaskName G)) = v2"
    using steady_tick [OF st Cons.prems(2,3), of s order] by metis
  show ?case using Cons.IH [OF w'(3,4,5)] w'(1,2) by simp
qed

text \<open>
  A run of three ticks of the handler with the stored demands sampled again each
  time issues no call, whatever the orders of the ranges.
\<close>

lemma example_three_steady_ticks:
  "issued (ticks default_names scripted (task_failing_for [])
        [[''priority1-demand'', ''priority2-demand''],
         [''priority2-demand'', ''priority1-demand''],
         [''priority1-demand'', ''priority2-demand'']]
        (hstart True [(5, None), (4, None), (5, None), (4, None), (5, None), (4, None)])) = []"
proof -
  have "steady_source default_names scripted 5 4
          (length [[''priority1-demand'', ''priority2-demand''],
                   [''priority2-demand'', ''priority1-demand''],
                   [''priority1-demand'', ''priority2-demand'']])
          (input_st (hstart True [(5, None), (4, None), (5, None), (4, None), (5, None), (4, None)]))"
    by (simp add: hstart_def default_names_def)
  then have "issued (ticks default_names scripted (task_failing_for [])
        [[''priority1-demand'', ''priority2-demand''],
         [''priority2-demand'', ''priority1-demand''],
         [''priority1-demand'', ''priority2-demand'']]
        (hstart True [(5, None), (4, None), (5, None), (4, None), (5, None), (4, None)]))
      = issued (hstart True [(5, None), (4, None), (5, None), (4, None), (5, None), (4, None)])"
    by (rule ticks_steady)
      (simp_all add: hstart_def default_names_def two_tasks_def index_ts_def zero_Task_def)
  then show ?thesis by (simp add: hstart_def)
qed

text \<open>
  C9. A sample that returns the stored values should report no change and cause no
  scheduler call. In main.go, a first sample of 10 leaves the struct at \<open>(10, 4)\<close>;
  a second sample of 10 then reports a change again, and the loop body issues
  \<open>CountAllTasks\<close> and both \<open>StopStartNTasks\<close> calls again, with nothing changed.
\<close>

theorem C9_repeated_sample_reconciles:
  "currentdemand (reconcile_step default_names scripted (failing_for [])
        (mstart [(10, None), (10, None)]))
     = \<lparr>p1demand = 10, p2demand = 4, p1requested = 0, p2requested = 0\<rparr>
   \<and> input_state (reconcile_step default_names scripted (failing_for [])
        (mstart [(10, None), (10, None)])) = [(10, None)]
   \<and> scripted ''priority1-demand'' [(10, None)] = ((10, None), [])
   \<and> demandchangeflag (reconcile_step default_names scripted (failing_for [])
        (reconcile_step default_names scripted (failing_for [])
          (mstart [(10, None), (10, None)]))) = True
   \<and> new_calls
        (reconcile_step default_names scripted (failing_for [])
          (mstart [(10, None), (10, None)]))
        (reconcile_step default_names scripted (failing_for [])
          (reconcile_step default_names scripted (failing_for [])
            (mstart [(10, None), (10, None)])))
     = [CountAllTasksCall,
        StopStartNTasksCall ''priority1-demand'' [] 10 0,
        StopStartNTasksCall ''priority2-demand'' [] 4 0]"
  by (simp add: reconcile_step_def update_Demand_def set_Demand_def handle_Demand_def
        mstart_def seeded_def default_names_def failing_for_def const_maxcontainers_def
        new_calls_def)

text \<open>
  Over iterations of the whole loop of main.go with unchanged demand, the only
  scheduler calls are the \<open>CountAllTasks\<close> queries of the telemetry push.
\<close>

lemma telemetry_step_keeps:
  assumes "telemetry_step S H sendstate addr w = Returns w'"
  shows "currentdemand w' = currentdemand w \<and> input_state w' = input_state w
       \<and> (calls w' = calls w \<or> calls w' = calls w @ [CountAllTasksCall])"
proof -
  have "snd (fst (snd (sendStateToAPI S H addr d (sst, cs) hst))) = cs @ [CountAllTasksCall]"
    for d sst cs hst
    by (simp add: sendStateToAPI_def Let_def split: prod.splits option.splits)
  then have c: "sendStateToAPI S H addr d (sst, cs) hst = (r, (sst', cs'), hst')
        \<Longrightarrow> cs' = cs @ [CountAllTasksCall]" for d sst cs hst r sst' cs' hst'
    by (metis fst_conv snd_conv)
  show ?thesis
    using assms
    by (auto simp add: telemetry_step_def Let_def split: if_splits prod.splits outcome.splits dest: c)
qed

lemma new_calls_append: "calls w' = calls w @ new \<Longrightarrow> new_calls w w' = new"
  by (simp add: new_calls_def)

lemma main_loop_steady:
  "steady_p1 GetDemand r n (input_state w) \<Longrightarrow>
   r = p1demand (currentdemand w) \<Longrightarrow>
   const_maxcontainers - r = p2demand (currentdemand w) \<Longrightarrow>
   main_loop G GetDemand S H sendstate addr n w = Returns w' \<Longrightarrow>
   currentdemand w' = currentdemand w
   \<and> calls w' = calls w @ new_calls w w'
   \<and> list_all (\<lambda>c. c = CountAllTasksCall) (new_calls w w')"
proof (induction n arbitrary: w)
  case 0
  then show ?case by (simp add: new_calls_def)
next
  case (Suc n)
  obtain a e ist1 where g: "GetDemand ''priority1-demand'' (input_state w) = ((a, e), ist1)"
    by (metis surj_pair)
  from Suc.prems(1) g have v: "a = r" "e = None" and rest: "steady_p1 GetDemand r n ist1"
    by simp_all
  have u: "update_Demand GetDemand (currentdemand w) (input_state w) = (False, currentdemand w, ist1)"
    using update_Demand_same [of GetDemand "input_state w" r ist1 "currentdemand w"]
      g v Suc.prems(2,3) by simp
  define w1 where "w1 = w\<lparr>demandchangeflag := False, input_state := ist1\<rparr>"
  have rs: "reconcile_step G GetDemand S w = w1"
    using reconcile_step_unchanged [of GetDemand w G S] u by (simp add: w1_def)
  obtain w2 where t: "telemetry_step S H sendstate addr w1 = Returns w2"
    and run: "main_loop G GetDemand S H sendstate addr n w2 = Returns w'"
    using Suc.prems(4) rs by (auto simp add: loop_body_def split: outcome.splits)
  have k: "currentdemand w2 = currentdemand w" "input_state w2 = ist1"
    "calls w2 = calls w \<or> calls w2 = calls w @ [CountAllTasksCall]"
    using telemetry_step_keeps [OF t] by (simp_all add: w1_def)
  have ih: "currentdemand w' = currentdemand w2 \<and> calls w' = calls w2 @ new_calls w2 w'
      \<and> list_all (\<lambda>c. c = CountAllTasksCall) (new_calls w2 w')"
    using Suc.IH [of w2] rest k Suc.prems(2,3) run by simp
  from k(3) show ?case
  proof
    assume "calls w2 = calls w"
    then show ?thesis using ih k(1) by (simp add: new_calls_def)
  next
    assume c: "calls w2 = calls w @ [CountAllTasksCall]"
    have "calls w' = calls w @ CountAllTasksCall # new_calls w2 w'" using ih c by simp
    then have "new_calls w w' = CountAllTasksCall # new_calls w2 w'" by (rule new_calls_append)
    then show ?thesis using ih k(1) c by simp
  qed
qed

section \<open>The first iteration of the loop of main.go\<close>

lemma reconcile_step_calls_iff:
  "(new_calls w (reconcile_step G GetDemand S w) \<noteq> [])
     = fst (update_Demand GetDemand (currentdemand w) (input_state w))"
proof (cases "fst (update_Demand GetDemand (currentdemand w) (input_state w))")
  case True
  then show ?thesis using reconcile_step_changed [of GetDemand w G S] by simp
next
  case False
  then show ?thesis using reconcile_step_unchanged [of GetDemand w G S]
    by (simp add: new_calls_def)
qed

lemma main_before_loop_fields:
  "demandchangeflag (main_before_loop GetDemand d ist sst hst cs) = True"
  "currentdemand (main_before_loop GetDemand d ist sst hst cs)
     = fst (snd (update_Demand GetDemand d ist))"
  "input_state (main_before_loop GetDemand d ist sst hst cs)
     = snd (snd (update_Demand GetDemand d ist))"
  "calls (main_before_loop GetDemand d ist sst hst cs) = cs"
  by (simp_all add: main_before_loop_def Let_def split: prod.splits)

text \<open>
  C10 (as amended). The value \<open>true\<close> given to the flag before the loop is never
  read: the loop body behaves the same for either value. The sample before the
  loop already replaces the seeds: when it returned a demand between 0 and the
  capacity, the first iteration reconciles exactly when its own sample differs
  from that one; when it failed, the seeds are still stored and the first
  iteration reconciles exactly when its sample differs from the seeded 5. An
  iteration whose sample fails does not reconcile. This is about lines 277 to 299,
  run with a scheduler in place.
\<close>

theorem C10_first_iteration:
  "reconcile_step G GetDemand S (w\<lparr>demandchangeflag := b\<rparr>) = reconcile_step G GetDemand S w
   \<and> demandchangeflag (main_before_loop GetDemand seeded ist sst hst cs) = True
   \<and> (0 \<le>s ra \<and> ra \<le>s const_maxcontainers
      \<and> GetDemand ''priority1-demand'' ist = ((ra, None), ista)
      \<and> GetDemand ''priority1-demand'' ista = ((rb, None), istb) \<longrightarrow>
        get_Demand (currentdemand (main_before_loop GetDemand seeded ist sst hst cs))
          = (ra, const_maxcontainers - ra)
        \<and> (new_calls (main_before_loop GetDemand seeded ist sst hst cs)
              (reconcile_step G GetDemand S (main_before_loop GetDemand seeded ist sst hst cs))
             \<noteq> []) = (rb \<noteq> ra))
   \<and> (GetDemand ''priority1-demand'' jst = ((x, Some e), jsta)
      \<and> GetDemand ''priority1-demand'' jsta = ((r, None), jstb) \<longrightarrow>
        get_Demand (currentdemand (main_before_loop GetDemand seeded jst sst hst cs))
          = (const_p1demandstart, const_p2demandstart)
        \<and> (new_calls (main_before_loop GetDemand seeded jst sst hst cs)
              (reconcile_step G GetDemand S (main_before_loop GetDemand seeded jst sst hst cs))
             \<noteq> []) = (r \<noteq> const_p1demandstart))
   \<and> (snd (fst (GetDemand ''priority1-demand'' (input_state w))) \<noteq> None \<longrightarrow>
        new_calls w (reconcile_step G GetDemand S w) = [])"
proof (intro conjI impI)
  show "reconcile_step G GetDemand S (w\<lparr>demandchangeflag := b\<rparr>) = reconcile_step G GetDemand S w"
    by (rule reconcile_step_flag_dead)
  show "demandchangeflag (main_before_loop GetDemand seeded ist sst hst cs) = True"
    by (rule main_before_loop_fields)
next
  assume a: "0 \<le>s ra \<and> ra \<le>s const_maxcontainers
      \<and> GetDemand ''priority1-demand'' ist = ((ra, None), ista)
      \<and> GetDemand ''priority1-demand'' ista = ((rb, None), istb)"
  let ?w0 = "main_before_loop GetDemand seeded ist sst hst cs"
  from a have rlo: "0 \<le>s ra" and r9: "ra \<le>s 9" by (simp_all add: const_maxcontainers_def)
  note ns = in_range_not_sentinel [OF rlo r9]
  have u0: "update_Demand GetDemand seeded ist =
          (ra \<noteq> p1demand seeded \<or> const_maxcontainers - ra \<noteq> p2demand seeded,
           snd (set_Demand ra (const_maxcontainers - ra) seeded), ista)"
    by (rule update_Demand_ok) (use a in blast)
  have d0: "currentdemand ?w0 = seeded\<lparr>p2demand := 9 - ra, p1demand := ra\<rparr>"
    and i0: "input_state ?w0 = ista"
    using ns by (simp_all add: main_before_loop_fields u0 set_Demand_def const_maxcontainers_def)
  show "get_Demand (currentdemand ?w0) = (ra, const_maxcontainers - ra)"
    by (simp add: d0 get_Demand_def const_maxcontainers_def)
  have u1: "update_Demand GetDemand (currentdemand ?w0) (input_state ?w0) =
          (rb \<noteq> p1demand (currentdemand ?w0)
             \<or> const_maxcontainers - rb \<noteq> p2demand (currentdemand ?w0),
           snd (set_Demand rb (const_maxcontainers - rb) (currentdemand ?w0)), istb)"
    by (rule update_Demand_ok) (use a i0 in simp)
  have "fst (update_Demand GetDemand (currentdemand ?w0) (input_state ?w0))
          = (rb \<noteq> p1demand (currentdemand ?w0)
              \<or> const_maxcontainers - rb \<noteq> p2demand (currentdemand ?w0))"
    by (simp add: u1)
  also have "\<dots> = (rb \<noteq> ra)"
    unfolding d0 by (simp add: const_maxcontainers_def)
  finally have "fst (update_Demand GetDemand (currentdemand ?w0) (input_state ?w0)) = (rb \<noteq> ra)" .
  then show "(new_calls ?w0 (reconcile_step G GetDemand S ?w0) \<noteq> []) = (rb \<noteq> ra)"
    by (simp add: reconcile_step_calls_iff)
next
  assume a: "GetDemand ''priority1-demand'' jst = ((x, Some e), jsta)
      \<and> GetDemand ''priority1-demand'' jsta = ((r, None), jstb)"
  let ?w0 = "main_before_loop GetDemand seeded jst sst hst cs"
  have u0: "update_Demand GetDemand seeded jst = (False, seeded, jsta)"
    by (rule update_Demand_error) (use a in blast)
  have d0: "currentdemand ?w0 = seeded" and i0: "input_state ?w0 = jsta"
    by (simp_all add: main_before_loop_fields u0)
  show "get_Demand (currentdemand ?w0) = (const_p1demandstart, const_p2demandstart)"
    unfolding d0
    by (simp add: get_Demand_def seeded_def const_p1demandstart_def const_p2demandstart_def)
  have u1: "update_Demand GetDemand (currentdemand ?w0) (input_state ?w0) =
          (r \<noteq> p1demand (currentdemand ?w0)
             \<or> const_maxcontainers - r \<noteq> p2demand (currentdemand ?w0),
           snd (set_Demand r (const_maxcontainers - r) (currentdemand ?w0)), jstb)"
    by (rule update_Demand_ok) (use a i0 in simp)
  have "fst (update_Demand GetDemand (currentdemand ?w0) (input_state ?w0))
          = (r \<noteq> p1demand (currentdemand ?w0)
              \<or> const_maxcontainers - r \<noteq> p2demand (currentdemand ?w0))"
    by (simp add: u1)
  also have "\<dots> = (r \<noteq> const_p1demandstart)"
    unfolding d0 by (auto simp add: seeded_def const_maxcontainers_def const_p1demandstart_def)
  finally have "fst (update_Demand GetDemand (currentdemand ?w0) (input_state ?w0))
          = (r \<noteq> const_p1demandstart)" .
  then show "(new_calls ?w0 (reconcile_step G GetDemand S ?w0) \<noteq> []) = (r \<noteq> const_p1demandstart)"
    by (simp add: reconcile_step_calls_iff)
next
  assume "snd (fst (GetDemand ''priority1-demand'' (input_state w))) \<noteq> None"
  then obtain v e' ist' where
    g: "GetDemand ''priority1-demand'' (input_state w) = ((v, Some e'), ist')"
    by (cases "GetDemand ''priority1-demand'' (input_state w)") auto
  have "update_Demand GetDemand (currentdemand w) (input_state w) = (False, currentdemand w, ist')"
    using g by (rule update_Demand_error)
  then have "\<not> fst (update_Demand GetDemand (currentdemand w) (input_state w))" by simp
  then show "new_calls w (reconcile_step G GetDemand S w) = []"
    using reconcile_step_calls_iff [of w G GetDemand S] by simp
qed

theorem C10_first_iteration_witness:
  "0 \<le>s (7::go_int) \<and> 7 \<le>s const_maxcontainers
   \<and> scripted ''priority1-demand'' [(7, None), (5, None)] = ((7, None), [(5, None)])
   \<and> scripted ''priority1-demand'' [(5, None)] = ((5, None), [])
   \<and> new_calls (main_before_loop scripted seeded [(7, None), (5, None)] () () [])
        (reconcile_step default_names scripted (failing_for [])
           (main_before_loop scripted seeded [(7, None), (5, None)] () () [])) \<noteq> []
   \<and> scripted ''priority1-demand'' [(0, Some ''consul unreachable''), (6, None)]
        = ((0, Some ''consul unreachable''), [(6, None)])
   \<and> scripted ''priority1-demand'' [(6, None)] = ((6, None), [])
   \<and> new_calls (main_before_loop scripted seeded [(0, Some ''consul unreachable''), (6, None)] () () [])
        (reconcile_step default_names scripted (failing_for [])
           (main_before_loop scripted seeded [(0, Some ''consul unreachable''), (6, None)] () () []))
       \<noteq> []
   \<and> snd (fst (scripted ''priority1-demand''
                 (input_state (mstart [(0, Some ''consul unreachable'')])))) \<noteq> None
   \<and> new_calls (mstart [(0, Some ''consul unreachable'')])
        (reconcile_step default_names scripted (failing_for [])
           (mstart [(0, Some ''consul unreachable'')])) = []"
  using C10_first_iteration [where G = default_names and GetDemand = scripted
      and S = "failing_for []" and w = "mstart [(0, Some ''consul unreachable'')]" and b = False
      and ist = "[(7, None), (5, None)]" and ista = "[(5, None)]" and istb = "[]"
      and ra = 7 and rb = 5 and sst = "()" and hst = "()" and cs = "[]"
      and jst = "[(0, Some ''consul unreachable''), (6, None)]" and jsta = "[(6, None)]"
      and jstb = "[]" and x = 0 and e = "''consul unreachable''" and r = 6]
  by (simp add: const_maxcontainers_def const_p1demandstart_def word_sle_eq mstart_def)

text \<open>
  C10 as stated compares with the seeds \<open>(5, 4)\<close>. With 7 sampled before the loop,
  a first in-loop sample of 7 differs from the seeds and does not reconcile, and a
  first in-loop sample of 5 equals the seeds and does reconcile.
\<close>

theorem C10_seed_counterexample:
  "get_Demand (currentdemand (main_before_loop scripted seeded [(7, None), (7, None)] () () []))
      = (7, 2)
   \<and> scripted ''priority1-demand''
        (input_state (main_before_loop scripted seeded [(7, None), (7, None)] () () []))
      = ((7, None), [])
   \<and> (7, const_maxcontainers - 7) \<noteq> (const_p1demandstart, const_p2demandstart)
   \<and> new_calls (main_before_loop scripted seeded [(7, None), (7, None)] () () [])
        (reconcile_step default_names scripted (failing_for [])
           (main_before_loop scripted seeded [(7, None), (7, None)] () () [])) = []
   \<and> scripted ''priority1-demand''
        (input_state (main_before_loop scripted seeded [(7, None), (5, None)] () () []))
      = ((5, None), [])
   \<and> (5, const_maxcontainers - 5) = (const_p1demandstart, const_p2demandstart)
   \<and> new_calls (main_before_loop scripted seeded [(7, None), (5, None)] () () [])
        (reconcile_step default_names scripted (failing_for [])
           (main_before_loop scripted seeded [(7, None), (5, None)] () () []))
      = [CountAllTasksCall, StopStartNTasksCall ''priority1-demand'' [] 5 0,
         StopStartNTasksCall ''priority2-demand'' [] 4 0]"
  by (simp add: main_before_loop_def default_names_def failing_for_def update_Demand_def
        set_Demand_def const_maxcontainers_def const_p1demandstart_def const_p2demandstart_def
        reconcile_step_def handle_Demand_def new_calls_def seeded_def get_Demand_def)

end
